theory Spec2Isabelle
  imports Complex_Main "HOL-Library.AList"
begin

section \<open>JavaScript primitives used by the product controller\<close>

text \<open>
  The controller (\<^verbatim>\<open>backend/controllers/productController.js\<close>) converts query
  parameters with \<^verbatim>\<open>Number(...)\<close>, tests them for truthiness with \<^verbatim>\<open>||\<close> and
  \<^verbatim>\<open>?:\<close>, interpolates a number into a template string and does arithmetic on the
  page size. The model covers the integer-valued Numbers: \<open>Num n\<close> is the Number with
  the integer value \<open>n\<close> (negative zero is identified with zero, and rounding above
  \<open>2^53\<close> is not modelled), \<open>NaN\<close> is NaN, \<open>PosInf\<close> and \<open>NegInf\<close> are the
  infinities. Numeric strings that denote a non-integer, use an exponent, a radix prefix
  or the word Infinity are outside the modelled fragment, and so is the exponent
  notation that JavaScript prints from \<open>10^21\<close> on.
\<close>

datatype jsnum = NaN | Num int | PosInf | NegInf

text \<open>
  A primitive value: a query parameter or an environment variable is undefined when it
  is missing and a string otherwise; the literal \<^verbatim>\<open>8\<close> is a Number.
\<close>

datatype prim = PUndefined | PString string | PNumber jsnum

subsection \<open>Number to string (template interpolation of the page number)\<close>

definition digit_char :: "nat \<Rightarrow> char" where
  "digit_char d = char_of (48 + d)"

fun digits :: "nat \<Rightarrow> string" where
  "digits n = (if n < 10 then [digit_char n] else digits (n div 10) @ [digit_char (n mod 10)])"

declare digits.simps [simp del]

definition NumberToString :: "jsnum \<Rightarrow> string" where
  "NumberToString x =
     (case x of
        NaN \<Rightarrow> ''NaN''
      | PosInf \<Rightarrow> ''Infinity''
      | NegInf \<Rightarrow> ''-Infinity''
      | Num n \<Rightarrow> (if n < 0 then CHR ''-'' # digits (nat (- n)) else digits (nat n)))"

subsection \<open>String to number (\<^verbatim>\<open>Number(s)\<close>)\<close>

definition is_digit :: "char \<Rightarrow> bool" where
  "is_digit c = (48 \<le> (of_char c :: nat) \<and> (of_char c :: nat) \<le> 57)"

text \<open>The ASCII white space that \<^verbatim>\<open>Number\<close> strips: tab, line feed, vertical tab, form feed,
  carriage return and space.\<close>

definition is_space :: "char \<Rightarrow> bool" where
  "is_space c = ((of_char c :: nat) \<in> {9, 10, 11, 12, 13, 32})"

definition digit_val :: "char \<Rightarrow> nat" where
  "digit_val c = of_char c - 48"

definition digits_val :: "string \<Rightarrow> nat" where
  "digits_val s = foldl (\<lambda>a c. 10 * a + digit_val c) 0 s"

definition trim :: "string \<Rightarrow> string" where
  "trim s = rev (dropWhile is_space (rev (dropWhile is_space s)))"

definition unsigned_literal :: "string \<Rightarrow> jsnum" where
  "unsigned_literal s =
     (if s \<noteq> [] \<and> list_all is_digit s then Num (int (digits_val s)) else NaN)"

definition StringToNumber :: "string \<Rightarrow> jsnum" where
  "StringToNumber s =
     (case trim s of
        [] \<Rightarrow> Num 0
      | c # cs \<Rightarrow>
          if c = CHR ''-'' then
            (case unsigned_literal cs of Num n \<Rightarrow> Num (- n) | other \<Rightarrow> other)
          else if c = CHR ''+'' then unsigned_literal cs
          else unsigned_literal (c # cs))"

subsection \<open>Conversions, truthiness and arithmetic\<close>

text \<open>\<^verbatim>\<open>Number(x)\<close>, and the implicit numeric coercion of \<^verbatim>\<open>*\<close> and \<^verbatim>\<open>/\<close>.\<close>

definition ToNumber :: "prim \<Rightarrow> jsnum" where
  "ToNumber x =
     (case x of PUndefined \<Rightarrow> NaN | PString s \<Rightarrow> StringToNumber s | PNumber n \<Rightarrow> n)"

text \<open>The values that \<^verbatim>\<open>||\<close> and \<^verbatim>\<open>?:\<close> treat as false: undefined, the empty string, 0 and NaN.\<close>

definition truthy :: "prim \<Rightarrow> bool" where
  "truthy x =
     (case x of PUndefined \<Rightarrow> False | PString s \<Rightarrow> s \<noteq> [] | PNumber n \<Rightarrow> n \<noteq> NaN \<and> n \<noteq> Num 0)"

definition js_or :: "prim \<Rightarrow> prim \<Rightarrow> prim" where
  "js_or a b = (if truthy a then a else b)"

definition js_toString :: "prim \<Rightarrow> string" where
  "js_toString x =
     (case x of PUndefined \<Rightarrow> ''undefined'' | PString s \<Rightarrow> s | PNumber n \<Rightarrow> NumberToString n)"

definition js_sgn :: "jsnum \<Rightarrow> int" where
  "js_sgn x = (case x of NaN \<Rightarrow> 0 | Num n \<Rightarrow> sgn n | PosInf \<Rightarrow> 1 | NegInf \<Rightarrow> - 1)"

definition js_neg :: "jsnum \<Rightarrow> jsnum" where
  "js_neg x = (case x of NaN \<Rightarrow> NaN | Num n \<Rightarrow> Num (- n) | PosInf \<Rightarrow> NegInf | NegInf \<Rightarrow> PosInf)"

definition js_add :: "jsnum \<Rightarrow> jsnum \<Rightarrow> jsnum" where
  "js_add x y =
     (case (x, y) of
        (NaN, _) \<Rightarrow> NaN
      | (_, NaN) \<Rightarrow> NaN
      | (Num a, Num b) \<Rightarrow> Num (a + b)
      | (PosInf, NegInf) \<Rightarrow> NaN
      | (NegInf, PosInf) \<Rightarrow> NaN
      | (PosInf, _) \<Rightarrow> PosInf
      | (NegInf, _) \<Rightarrow> NegInf
      | (_, PosInf) \<Rightarrow> PosInf
      | (_, NegInf) \<Rightarrow> NegInf)"

definition js_sub :: "jsnum \<Rightarrow> jsnum \<Rightarrow> jsnum" where
  "js_sub x y = js_add x (js_neg y)"

definition js_mul :: "jsnum \<Rightarrow> jsnum \<Rightarrow> jsnum" where
  "js_mul x y =
     (case (x, y) of
        (NaN, _) \<Rightarrow> NaN
      | (_, NaN) \<Rightarrow> NaN
      | (Num a, Num b) \<Rightarrow> Num (a * b)
      | _ \<Rightarrow> (let s = js_sgn x * js_sgn y
              in if s = 0 then NaN else if 0 < s then PosInf else NegInf))"

text \<open>
  \<^verbatim>\<open>Math.ceil(count / pageSize)\<close> as one operation, since the quotient itself is not
  an integer. The dividend is a document count. For a finite divisor \<open>b \<noteq> 0\<close> the
  result is the quotient rounded towards plus infinity (\<open>div\<close> on \<open>int\<close> rounds
  towards minus infinity).
\<close>

definition Math_ceil_div :: "nat \<Rightarrow> jsnum \<Rightarrow> jsnum" where
  "Math_ceil_div a y =
     (case y of
        NaN \<Rightarrow> NaN
      | Num b \<Rightarrow> (if b \<noteq> 0 then Num (- ((- int a) div b)) else if a = 0 then NaN else PosInf)
      | PosInf \<Rightarrow> Num 0
      | NegInf \<Rightarrow> Num 0)"

section \<open>Values, JSON text and catalog documents\<close>

record review =
  rev_name :: string
  rev_rating :: rat
  rev_comment :: string
  rev_user :: nat

text \<open>
  The fields of a product that the controller reads or writes. Identifiers (MongoDB
  ObjectIds) are natural numbers. The schema (\<^verbatim>\<open>models/productModel.js\<close>) is not part
  of the sources.
\<close>

record product =
  prod_id :: nat
  prod_name :: string
  prod_price :: rat
  prod_user :: nat
  prod_image :: string
  prod_brand :: string
  prod_category :: string
  prod_countInStock :: int
  prod_numReviews :: nat
  prod_description :: string
  prod_rating :: rat
  prod_reviews :: "review list"

text \<open>
  A value held by a JavaScript variable. \<open>VDoc p\<close> is a live Mongoose document whose
  fields currently hold \<open>p\<close>; \<open>VRecord p\<close> is the plain object that parsing the
  document's JSON text gives back.
\<close>

datatype jsval =
    VUndefined
  | VNull
  | VBool bool
  | VNum jsnum
  | VStr string
  | VArr "jsval list"
  | VObj "(string \<times> jsval) list"
  | VDoc product
  | VRecord product

text \<open>
  JSON text, as its syntax tree. \<open>JDoc p\<close> is the object that a document's
  \<^verbatim>\<open>toJSON\<close> writes for the field values \<open>p\<close>.
\<close>

datatype json =
    JNull
  | JBool bool
  | JNum int
  | JStr string
  | JArr "json list"
  | JObj "(string \<times> json) list"
  | JDoc product

text \<open>
  \<^verbatim>\<open>JSON.stringify\<close> below the top level: undefined array elements and non-finite
  numbers are written as null, properties whose value is undefined are left out.
\<close>

fun JSON_stringify :: "jsval \<Rightarrow> json" where
  "JSON_stringify VUndefined = JNull"
| "JSON_stringify VNull = JNull"
| "JSON_stringify (VBool b) = JBool b"
| "JSON_stringify (VNum x) = (case x of Num n \<Rightarrow> JNum n | _ \<Rightarrow> JNull)"
| "JSON_stringify (VStr s) = JStr s"
| "JSON_stringify (VArr xs) = JArr (map JSON_stringify xs)"
| "JSON_stringify (VObj kvs) =
     JObj (map (\<lambda>kv. (fst kv, JSON_stringify (snd kv))) (filter (\<lambda>kv. snd kv \<noteq> VUndefined) kvs))"
| "JSON_stringify (VDoc p) = JDoc p"
| "JSON_stringify (VRecord p) = JDoc p"

fun JSON_parse :: "json \<Rightarrow> jsval" where
  "JSON_parse JNull = VNull"
| "JSON_parse (JBool b) = VBool b"
| "JSON_parse (JNum n) = VNum (Num n)"
| "JSON_parse (JStr s) = VStr s"
| "JSON_parse (JArr xs) = VArr (map JSON_parse xs)"
| "JSON_parse (JObj kvs) = VObj (map (\<lambda>kv. (fst kv, JSON_parse (snd kv))) kvs)"
| "JSON_parse (JDoc p) = VRecord p"

text \<open>
  A plain value: built from null, booleans, finite numbers, strings, arrays and plain
  objects only. It holds no live document and nothing that JSON text cannot express.
\<close>

fun plain :: "jsval \<Rightarrow> bool" where
  "plain VUndefined = False"
| "plain VNull = True"
| "plain (VBool b) = True"
| "plain (VNum x) = (case x of Num n \<Rightarrow> True | _ \<Rightarrow> False)"
| "plain (VStr s) = True"
| "plain (VArr xs) = list_all plain xs"
| "plain (VObj kvs) = list_all (\<lambda>kv. plain (snd kv)) kvs"
| "plain (VDoc p) = False"
| "plain (VRecord p) = True"

section \<open>Process state\<close>

text \<open>
  What a handler throws: \<^verbatim>\<open>Error('Product not found')\<close> after \<^verbatim>\<open>res.status(404)\<close>,
  \<^verbatim>\<open>Error('Product already reviewed')\<close> after \<^verbatim>\<open>res.status(400)\<close>, or whatever a
  data-access call threw.
\<close>

datatype error = NotFound | DuplicateReview | DataAccessFailure

text \<open>
  The calls a handler makes on its collaborators, in the order it makes them. The trace
  is an observer only: no handler reads it. \<open>DbCommit\<close> is a write that the
  database accepted, \<open>DbFailure\<close> a data-access call that threw.
\<close>

datatype event =
    DbRead
  | DbCommit
  | DbFailure
  | CacheHas string
  | CacheGet string
  | CacheSet string
  | CacheFlushAll
  | ResJson

record entry =
  entry_value :: jsval
  storedAt :: nat
  ttl :: nat

type_synonym store = "(string \<times> entry) list"

type_synonym env = "string \<Rightarrow> string option"

text \<open>
  \<open>collection\<close> is the product collection in insertion order and \<open>nextId\<close> the next
  unused identifier; \<open>cache\<close> is the module-level cache; \<open>clock\<close> is the time in
  seconds, constant while one handler runs; \<open>faults\<close> tells, for each data-access call
  still to come, whether it throws (no entry: it does not).
\<close>

record world =
  collection :: "product list"
  nextId :: nat
  cache :: store
  clock :: nat
  faults :: "bool list"
  trace :: "event list"

record response =
  statusCode :: nat
  headers :: "(string \<times> string) list"
  body :: "json option"
  thrown :: "error option"

section \<open>The cache store\<close>

text \<open>
  Modelled from the spec: the store is the \<^verbatim>\<open>node-cache\<close> package, whose code is not
  among the sources. Section 4.1 of the specification gives its contract: an entry is
  live while \<open>now < storedAt + ttl\<close>; \<open>has\<close> is true iff a live entry exists;
  \<open>get\<close> returns the value of a live entry and is absent otherwise; \<open>set\<close> inserts
  or overwrites and restarts the expiry clock; \<open>flushAll\<close> removes every entry.
\<close>

definition live :: "nat \<Rightarrow> entry \<Rightarrow> bool" where
  "live now e = (now < storedAt e + ttl e)"

definition store_has :: "nat \<Rightarrow> string \<Rightarrow> store \<Rightarrow> bool" where
  "store_has now k c = (case map_of c k of None \<Rightarrow> False | Some e \<Rightarrow> live now e)"

definition store_get :: "nat \<Rightarrow> string \<Rightarrow> store \<Rightarrow> jsval" where
  "store_get now k c =
     (case map_of c k of None \<Rightarrow> VUndefined | Some e \<Rightarrow> if live now e then entry_value e else VUndefined)"

definition store_set :: "nat \<Rightarrow> string \<Rightarrow> jsval \<Rightarrow> nat \<Rightarrow> store \<Rightarrow> store" where
  "store_set now k v t c = AList.update k \<lparr>entry_value = v, storedAt = now, ttl = t\<rparr> c"

definition store_flushAll :: "store \<Rightarrow> store" where
  "store_flushAll c = []"

text \<open>
  \<^verbatim>\<open>const cache = new NodeCache({ stdTTL: 300 })\<close>, evaluated when the module is loaded
  in a process with environment \<open>e\<close>.
\<close>

definition stdTTL :: "env \<Rightarrow> nat" where
  "stdTTL e = 300"

text \<open>The four calls on the module-level cache, as the handlers make them.\<close>

definition cache_has :: "string \<Rightarrow> world \<Rightarrow> bool \<times> world" where
  "cache_has k w = (store_has (clock w) k (cache w), w\<lparr>trace := trace w @ [CacheHas k]\<rparr>)"

definition cache_get :: "string \<Rightarrow> world \<Rightarrow> jsval \<times> world" where
  "cache_get k w = (store_get (clock w) k (cache w), w\<lparr>trace := trace w @ [CacheGet k]\<rparr>)"

definition cache_set :: "env \<Rightarrow> string \<Rightarrow> jsval \<Rightarrow> world \<Rightarrow> world" where
  "cache_set e k v w =
     w\<lparr>cache := store_set (clock w) k v (stdTTL e) (cache w), trace := trace w @ [CacheSet k]\<rparr>"

definition cache_flushAll :: "world \<Rightarrow> world" where
  "cache_flushAll w = w\<lparr>cache := store_flushAll (cache w), trace := trace w @ [CacheFlushAll]\<rparr>"

section \<open>The data-access collaborator\<close>

text \<open>
  Modelled from the spec: the Mongoose model \<^verbatim>\<open>Product\<close> and the database behind it
  are not among the sources. Section 6 of the specification gives the interface: a query
  takes filter and pagination parameters and returns the matching entities, a count, or a
  bounded top-N list, and any call may fail. The regular-expression match of a keyword
  against a product name is the parameter \<open>rx\<close>. A limit of 0 means no limit and a
  negative limit is taken by its magnitude; a negative or non-finite skip and a
  non-finite limit are rejected.
\<close>

definition db_await :: "event \<Rightarrow> world \<Rightarrow> bool \<times> world" where
  "db_await ev w =
     (case faults w of
        [] \<Rightarrow> (False, w\<lparr>trace := trace w @ [ev]\<rparr>)
      | f # fs \<Rightarrow> (f, w\<lparr>faults := fs, trace := trace w @ [if f then DbFailure else ev]\<rparr>))"

text \<open>Whether the next data-access call throws, and the state it leaves.\<close>

definition next_fault :: "world \<Rightarrow> bool" where
  "next_fault w = (case faults w of [] \<Rightarrow> False | f # fs \<Rightarrow> f)"

definition after_await :: "event \<Rightarrow> world \<Rightarrow> world" where
  "after_await ev w =
     w\<lparr>faults := tl (faults w), trace := trace w @ [if next_fault w then DbFailure else ev]\<rparr>"

definition matches :: "(string \<Rightarrow> string \<Rightarrow> bool) \<Rightarrow> string option \<Rightarrow> product \<Rightarrow> bool" where
  "matches rx flt p = (case flt of None \<Rightarrow> True | Some kw \<Rightarrow> rx kw (prod_name p))"

definition count_matching ::
  "(string \<Rightarrow> string \<Rightarrow> bool) \<Rightarrow> string option \<Rightarrow> product list \<Rightarrow> nat" where
  "count_matching rx flt ps = length (filter (matches rx flt) ps)"

definition countDocuments ::
  "(string \<Rightarrow> string \<Rightarrow> bool) \<Rightarrow> string option \<Rightarrow> world \<Rightarrow> (error + nat) \<times> world" where
  "countDocuments rx flt w =
     (let (f, w1) = db_await DbRead w
      in if f then (Inl DataAccessFailure, w1)
         else (Inr (count_matching rx flt (collection w1)), w1))"

definition apply_limit :: "int \<Rightarrow> 'a list \<Rightarrow> 'a list" where
  "apply_limit l xs = (if l = 0 then xs else take (nat \<bar>l\<bar>) xs)"

definition select_page ::
  "(string \<Rightarrow> string \<Rightarrow> bool) \<Rightarrow> string option \<Rightarrow> int \<Rightarrow> int \<Rightarrow> product list
     \<Rightarrow> product list" where
  "select_page rx flt l s ps = apply_limit l (drop (nat s) (filter (matches rx flt) ps))"

definition find_page ::
  "(string \<Rightarrow> string \<Rightarrow> bool) \<Rightarrow> string option \<Rightarrow> prim \<Rightarrow> jsnum \<Rightarrow> world
     \<Rightarrow> (error + product list) \<times> world" where
  "find_page rx flt lmt skp w =
     (let (f, w1) = db_await DbRead w
      in case (ToNumber lmt, skp) of
           (Num l, Num s) \<Rightarrow>
             if f \<or> s < 0 then (Inl DataAccessFailure, w1)
             else (Inr (select_page rx flt l s (collection w1)), w1)
         | _ \<Rightarrow> (Inl DataAccessFailure, w1))"

definition find_top :: "world \<Rightarrow> (error + product list) \<times> world" where
  "find_top w =
     (let (f, w1) = db_await DbRead w
      in if f then (Inl DataAccessFailure, w1)
         else (Inr (take 3 (sort_key (\<lambda>p. - prod_rating p) (collection w1))), w1))"

definition findById :: "nat \<Rightarrow> world \<Rightarrow> (error + product option) \<times> world" where
  "findById i w =
     (let (f, w1) = db_await DbRead w
      in if f then (Inl DataAccessFailure, w1)
         else (Inr (find (\<lambda>p. prod_id p = i) (collection w1)), w1))"

definition upsert :: "product \<Rightarrow> product list \<Rightarrow> product list" where
  "upsert p ps =
     (if list_ex (\<lambda>q. prod_id q = prod_id p) ps
      then map (\<lambda>q. if prod_id q = prod_id p then p else q) ps
      else ps @ [p])"

definition save :: "product \<Rightarrow> world \<Rightarrow> (error + product) \<times> world" where
  "save p w =
     (let (f, w1) = db_await DbCommit w
      in if f then (Inl DataAccessFailure, w1)
         else (Inr p, w1\<lparr>collection := upsert p (collection w1)\<rparr>))"

fun delete_first :: "nat \<Rightarrow> product list \<Rightarrow> product list" where
  "delete_first i [] = []"
| "delete_first i (p # ps) = (if prod_id p = i then ps else p # delete_first i ps)"

definition deleteOne :: "nat \<Rightarrow> world \<Rightarrow> (error + unit) \<times> world" where
  "deleteOne i w =
     (let (f, w1) = db_await DbCommit w
      in if f then (Inl DataAccessFailure, w1)
         else (Inr (), w1\<lparr>collection := delete_first i (collection w1)\<rparr>))"

section \<open>The response object\<close>

definition res0 :: response where
  "res0 = \<lparr>statusCode = 200, headers = [], body = None, thrown = None\<rparr>"

definition res_set :: "string \<Rightarrow> string \<Rightarrow> response \<Rightarrow> response" where
  "res_set h v res = res\<lparr>headers := AList.update h v (headers res)\<rparr>"

definition res_status :: "nat \<Rightarrow> response \<Rightarrow> response" where
  "res_status n res = res\<lparr>statusCode := n\<rparr>"

text \<open>\<^verbatim>\<open>res.json(v)\<close> sends \<^verbatim>\<open>JSON.stringify(v)\<close>, which is no text at all for undefined.\<close>

definition res_json :: "jsval \<Rightarrow> response \<Rightarrow> world \<Rightarrow> response \<times> world" where
  "res_json v res w =
     (res\<lparr>body := (if v = VUndefined then None else Some (JSON_stringify v))\<rparr>,
      w\<lparr>trace := trace w @ [ResJson]\<rparr>)"

text \<open>
  A thrown error ends the handler; the status set so far stays on the response, from
  which the error middleware (not among the sources) builds its answer.
\<close>

definition throw :: "error \<Rightarrow> response \<Rightarrow> response" where
  "throw e res = res\<lparr>thrown := Some e\<rparr>"

section \<open>The handlers of the product controller\<close>

text \<open>
  \<^verbatim>\<open>req.query\<close>: a parameter is a string, or \<open>None\<close> when the request does not
  carry it. \<open>param\<close> is the value the handler reads.
\<close>

record query =
  pageNumber :: "string option"
  keyword :: "string option"

definition param :: "string option \<Rightarrow> prim" where
  "param x = (case x of None \<Rightarrow> PUndefined | Some s \<Rightarrow> PString s)"

record user =
  user_id :: nat
  user_name :: string

record product_body =
  body_name :: string
  body_price :: rat
  body_description :: string
  body_image :: string
  body_brand :: string
  body_category :: string
  body_countInStock :: int

text \<open>The rating of a review body is a number, so that \<^verbatim>\<open>Number(rating)\<close> is the rating.\<close>

record review_body =
  body_rating :: rat
  body_comment :: string

subsection \<open>\<^verbatim>\<open>getProducts\<close>: the constants computed at the head of the handler\<close>

text \<open>\<^verbatim>\<open>const pageSize = process.env.PAGINATION_LIMIT || 8\<close>\<close>

definition pageSize :: "env \<Rightarrow> prim" where
  "pageSize e =
     js_or (param (e ''PAGINATION_LIMIT'')) (PNumber (Num 8))"

text \<open>\<^verbatim>\<open>const page = Number(req.query.pageNumber) || 1\<close>\<close>

definition page :: "query \<Rightarrow> jsnum" where
  "page q = (let n = ToNumber (param (pageNumber q)) in if truthy (PNumber n) then n else Num 1)"

text \<open>\<^verbatim>\<open>const keywordStr = req.query.keyword ? req.query.keyword.toString() : ''\<close>\<close>

definition keywordStr :: "query \<Rightarrow> string" where
  "keywordStr q =
     (if truthy (param (keyword q)) then js_toString (param (keyword q)) else [])"

text \<open>\<^verbatim>\<open>const cacheKey = `products_page_${page}_keyword_${keywordStr}`\<close>\<close>

definition cacheKey :: "query \<Rightarrow> string" where
  "cacheKey q = ''products_page_'' @ NumberToString (page q) @ ''_keyword_'' @ keywordStr q"

text \<open>
  The filter \<^verbatim>\<open>req.query.keyword ? { name: { $regex: req.query.keyword, $options: 'i' } } : {}\<close>:
  \<open>None\<close> is the empty filter.
\<close>

definition keyword_filter :: "query \<Rightarrow> string option" where
  "keyword_filter q =
     (if truthy (param (keyword q)) then Some (js_toString (param (keyword q))) else None)"

subsection \<open>The seven handlers\<close>

definition getProducts ::
  "(string \<Rightarrow> string \<Rightarrow> bool) \<Rightarrow> env \<Rightarrow> query \<Rightarrow> world \<Rightarrow> response \<times> world" where
  "getProducts rx e q w =
     (let (hit, w1) = cache_has (cacheKey q) w
      in if hit then
           (let res1 = res_set ''X-Cache'' ''HIT'' res0;
                (v, w2) = cache_get (cacheKey q) w1
            in res_json v res1 w2)
         else
           (let res1 = res_set ''X-Cache'' ''MISS'' res0;
                (r1, w2) = countDocuments rx (keyword_filter q) w1
            in case r1 of
                 Inl err \<Rightarrow> (throw err res1, w2)
               | Inr count \<Rightarrow>
                   (let (r2, w3) =
                          find_page rx (keyword_filter q) (pageSize e)
                            (js_mul (ToNumber (pageSize e)) (js_sub (page q) (Num 1))) w2
                    in case r2 of
                         Inl err \<Rightarrow> (throw err res1, w3)
                       | Inr products \<Rightarrow>
                           (let responseData =
                                  VObj [(''products'', VArr (map VDoc products)),
                                        (''page'', VNum (page q)),
                                        (''pages'', VNum (Math_ceil_div count (ToNumber (pageSize e))))];
                                plainResponseData = JSON_parse (JSON_stringify responseData);
                                w4 = cache_set e (cacheKey q) plainResponseData w3
                            in res_json plainResponseData res1 w4))))"

definition getProductById :: "nat \<Rightarrow> world \<Rightarrow> response \<times> world" where
  "getProductById i w =
     (let (r, w1) = findById i w
      in case r of
           Inl err \<Rightarrow> (throw err res0, w1)
         | Inr None \<Rightarrow> (throw NotFound (res_status 404 res0), w1)
         | Inr (Some product) \<Rightarrow> res_json (VDoc product) res0 w1)"

text \<open>
  \<^verbatim>\<open>new Product({...})\<close> draws a fresh identifier; rating 0 and no reviews are the values
  a new product has before its first review.
\<close>

definition createProduct :: "user \<Rightarrow> world \<Rightarrow> response \<times> world" where
  "createProduct u w =
     (let product =
            \<lparr>prod_id = nextId w, prod_name = ''Sample name'', prod_price = 0,
             prod_user = user_id u, prod_image = ''/images/sample.jpg'',
             prod_brand = ''Sample brand'', prod_category = ''Sample category'',
             prod_countInStock = 0, prod_numReviews = 0,
             prod_description = ''Sample description'', prod_rating = 0, prod_reviews = []\<rparr>;
          w0 = w\<lparr>nextId := Suc (nextId w)\<rparr>;
          (r, w1) = save product w0
      in case r of
           Inl err \<Rightarrow> (throw err res0, w1)
         | Inr createdProduct \<Rightarrow>
             (let w2 = cache_flushAll w1
              in res_json (VDoc createdProduct) (res_status 201 res0) w2))"

definition updateProduct :: "nat \<Rightarrow> product_body \<Rightarrow> world \<Rightarrow> response \<times> world" where
  "updateProduct i b w =
     (let (r, w1) = findById i w
      in case r of
           Inl err \<Rightarrow> (throw err res0, w1)
         | Inr None \<Rightarrow> (throw NotFound (res_status 404 res0), w1)
         | Inr (Some product) \<Rightarrow>
             (let product1 =
                    product\<lparr>prod_name := body_name b, prod_price := body_price b,
                            prod_description := body_description b, prod_image := body_image b,
                            prod_brand := body_brand b, prod_category := body_category b,
                            prod_countInStock := body_countInStock b\<rparr>;
                  (r2, w2) = save product1 w1
              in case r2 of
                   Inl err \<Rightarrow> (throw err res0, w2)
                 | Inr updatedProduct \<Rightarrow>
                     (let w3 = cache_flushAll w2
                      in res_json (VDoc updatedProduct) res0 w3)))"

definition deleteProduct :: "nat \<Rightarrow> world \<Rightarrow> response \<times> world" where
  "deleteProduct i w =
     (let (r, w1) = findById i w
      in case r of
           Inl err \<Rightarrow> (throw err res0, w1)
         | Inr None \<Rightarrow> (throw NotFound (res_status 404 res0), w1)
         | Inr (Some product) \<Rightarrow>
             (let (r2, w2) = deleteOne (prod_id product) w1
              in case r2 of
                   Inl err \<Rightarrow> (throw err res0, w2)
                 | Inr _ \<Rightarrow>
                     (let w3 = cache_flushAll w2
                      in res_json (VObj [(''message'', VStr ''Product removed'')]) res0 w3)))"

definition createProductReview ::
  "nat \<Rightarrow> user \<Rightarrow> review_body \<Rightarrow> world \<Rightarrow> response \<times> world" where
  "createProductReview i u b w =
     (let (r, w1) = findById i w
      in case r of
           Inl err \<Rightarrow> (throw err res0, w1)
         | Inr None \<Rightarrow> (throw NotFound (res_status 404 res0), w1)
         | Inr (Some product) \<Rightarrow>
             (let alreadyReviewed = find (\<lambda>r. rev_user r = user_id u) (prod_reviews product)
              in if alreadyReviewed \<noteq> None then (throw DuplicateReview (res_status 400 res0), w1)
                 else
                   (let review =
                          \<lparr>rev_name = user_name u, rev_rating = body_rating b,
                           rev_comment = body_comment b, rev_user = user_id u\<rparr>;
                        product1 = product\<lparr>prod_reviews := prod_reviews product @ [review]\<rparr>;
                        product2 = product1\<lparr>prod_numReviews := length (prod_reviews product1)\<rparr>;
                        product3 =
                          product2\<lparr>prod_rating :=
                            foldl (\<lambda>acc item. rev_rating item + acc) 0 (prod_reviews product2)
                              / of_nat (length (prod_reviews product2))\<rparr>;
                        (r2, w2) = save product3 w1
                    in case r2 of
                         Inl err \<Rightarrow> (throw err res0, w2)
                       | Inr _ \<Rightarrow>
                           (let w3 = cache_flushAll w2
                            in res_json (VObj [(''message'', VStr ''Review added'')])
                                 (res_status 201 res0) w3))))"

definition getTopProducts :: "env \<Rightarrow> world \<Rightarrow> response \<times> world" where
  "getTopProducts e w =
     (let cacheKey = ''top_products'';
          (hit, w1) = cache_has cacheKey w
      in if hit then
           (let res1 = res_set ''X-Cache'' ''HIT'' res0;
                (v, w2) = cache_get cacheKey w1
            in res_json v res1 w2)
         else
           (let res1 = res_set ''X-Cache'' ''MISS'' res0;
                (r, w2) = find_top w1
            in case r of
                 Inl err \<Rightarrow> (throw err res1, w2)
               | Inr products \<Rightarrow>
                   (let w3 = cache_set e cacheKey (VArr (map VDoc products)) w2
                    in res_json (VArr (map VDoc products)) res1 w3)))"

subsection \<open>Requests\<close>

text \<open>The exported handlers, one constructor for each, with the inputs each one reads.\<close>

datatype request =
    GetProducts query
  | GetProductById nat
  | CreateProduct user
  | UpdateProduct nat product_body
  | DeleteProduct nat
  | CreateProductReview nat user review_body
  | GetTopProducts

fun handle ::
  "(string \<Rightarrow> string \<Rightarrow> bool) \<Rightarrow> env \<Rightarrow> request \<Rightarrow> world \<Rightarrow> response \<times> world" where
  "handle rx e (GetProducts q) w = getProducts rx e q w"
| "handle rx e (GetProductById i) w = getProductById i w"
| "handle rx e (CreateProduct u) w = createProduct u w"
| "handle rx e (UpdateProduct i b) w = updateProduct i b w"
| "handle rx e (DeleteProduct i) w = deleteProduct i w"
| "handle rx e (CreateProductReview i u b) w = createProductReview i u b w"
| "handle rx e GetTopProducts w = getTopProducts e w"

fun is_mutation :: "request \<Rightarrow> bool" where
  "is_mutation (CreateProduct u) = True"
| "is_mutation (UpdateProduct i b) = True"
| "is_mutation (DeleteProduct i) = True"
| "is_mutation (CreateProductReview i u b) = True"
| "is_mutation r = False"

subsection \<open>Reading the trace\<close>

fun is_cache_call :: "event \<Rightarrow> bool" where
  "is_cache_call (CacheHas k) = True"
| "is_cache_call (CacheGet k) = True"
| "is_cache_call (CacheSet k) = True"
| "is_cache_call CacheFlushAll = True"
| "is_cache_call ev = False"

text \<open>The calls that change the store: \<^verbatim>\<open>set\<close> and \<^verbatim>\<open>flushAll\<close>.\<close>

fun is_cache_write :: "event \<Rightarrow> bool" where
  "is_cache_write (CacheSet k) = True"
| "is_cache_write CacheFlushAll = True"
| "is_cache_write ev = False"

text \<open>The value of the \<^verbatim>\<open>X-Cache\<close> header of a response.\<close>

definition x_cache :: "response \<Rightarrow> string option" where
  "x_cache res = map_of (headers res) ''X-Cache''"

subsection \<open>The payload of a page\<close>

text \<open>
  The JSON text of page \<open>p\<close> of the products of \<open>ps\<close> that match the keyword of
  \<open>q\<close>, for the page size \<open>l\<close>: what a listing computed from the collection \<open>ps\<close>
  contains. The theorems compare the responses of \<^verbatim>\<open>getProducts\<close> with it.
\<close>

definition page_payload ::
  "(string \<Rightarrow> string \<Rightarrow> bool) \<Rightarrow> query \<Rightarrow> int \<Rightarrow> int \<Rightarrow> product list \<Rightarrow> json" where
  "page_payload rx q l p ps =
     JObj [(''products'', JArr (map JDoc (select_page rx (keyword_filter q) l (l * (p - 1)) ps))),
           (''page'', JNum p),
           (''pages'',
              JSON_stringify (VNum (Math_ceil_div (count_matching rx (keyword_filter q) ps) (Num l))))]"

subsection \<open>Sample data\<close>

text \<open>A keyword matcher for keywords without metacharacters: the keyword occurs in the name.\<close>

fun occurs_in :: "string \<Rightarrow> string \<Rightarrow> bool" where
  "occurs_in kw [] = (kw = [])"
| "occurs_in kw (c # cs) = (take (length kw) (c # cs) = kw \<or> occurs_in kw cs)"

definition shirt :: product where
  "shirt =
     \<lparr>prod_id = 1, prod_name = ''shirt'', prod_price = 25, prod_user = 7,
      prod_image = ''/images/shirt.jpg'', prod_brand = ''Acme'', prod_category = ''Clothes'',
      prod_countInStock = 3, prod_numReviews = 1, prod_description = ''A shirt'',
      prod_rating = 4,
      prod_reviews = [\<lparr>rev_name = ''Ann'', rev_rating = 4, rev_comment = ''ok'', rev_user = 8\<rparr>]\<rparr>"

definition shoe :: product where
  "shoe =
     \<lparr>prod_id = 2, prod_name = ''shoe'', prod_price = 60, prod_user = 7,
      prod_image = ''/images/shoe.jpg'', prod_brand = ''Acme'', prod_category = ''Shoes'',
      prod_countInStock = 5, prod_numReviews = 0, prod_description = ''A shoe'',
      prod_rating = 0, prod_reviews = []\<rparr>"

definition world0 :: world where
  "world0 =
     \<lparr>collection = [shirt, shoe], nextId = 3, cache = [], clock = 1000, faults = [], trace = []\<rparr>"

definition env0 :: env where
  "env0 = Map.empty"

definition query0 :: query where
  "query0 = \<lparr>pageNumber = Some ''1'', keyword = Some ''sh''\<rparr>"




text \<open>An environment that sets a page size and tries to set a time to live.\<close>

definition env_ttl :: env where
  "env_ttl = [''PAGINATION_LIMIT'' \<mapsto> ''1'', ''CACHE_TTL'' \<mapsto> ''60'', ''STD_TTL'' \<mapsto> ''60'']"

subsection \<open>Reading a response\<close>



subsection \<open>Predicates used to state the theorems\<close>

text \<open>
  \<open>untouched w w'\<close>: from \<open>w\<close> to \<open>w'\<close> the store, the collection and the clock
  are the same, and the calls made in between include neither \<open>set\<close> nor \<open>flushAll\<close>.
\<close>

definition untouched :: "world \<Rightarrow> world \<Rightarrow> bool" where
  "untouched w w' =
     (cache w' = cache w \<and> collection w' = collection w \<and> clock w' = clock w
      \<and> (\<exists>evs. trace w' = trace w @ evs \<and> filter is_cache_write evs = []))"





text \<open>
  The worlds a process can be in: it starts with an empty store, handles requests one
  after the other, and between two requests time passes and the faults to come change.
\<close>

inductive reachable :: "(string \<Rightarrow> string \<Rightarrow> bool) \<Rightarrow> env \<Rightarrow> world \<Rightarrow> bool"
  for rx :: "string \<Rightarrow> string \<Rightarrow> bool" and e :: env where
  start: "cache w = [] \<Longrightarrow> reachable rx e w"
| request: "reachable rx e w \<Longrightarrow> reachable rx e (snd (handle rx e r w))"
| elapse: "reachable rx e w \<Longrightarrow> reachable rx e (w\<lparr>clock := t, faults := fs\<rparr>)"

subsection \<open>More sample data\<close>

text \<open>The sample world after \<open>query0\<close> has been read once.\<close>

definition world_cached :: world where
  "world_cached = snd (getProducts occurs_in env0 query0 world0)"

definition ann :: user where
  "ann = \<lparr>user_id = 8, user_name = ''Ann''\<rparr>"

definition body0 :: product_body where
  "body0 =
     \<lparr>body_name = ''shirt XL'', body_price = 30, body_description = ''A large shirt'',
      body_image = ''/images/shirt.jpg'', body_brand = ''Acme'', body_category = ''Clothes'',
      body_countInStock = 2\<rparr>"

definition review0 :: review_body where
  "review0 = \<lparr>body_rating = 5, body_comment = ''great''\<rparr>"

section \<open>Cache-key derivation\<close>













section \<open>Facts about the collaborators\<close>

lemma db_await_eq: "db_await ev w = (next_fault w, after_await ev w)"
  by (simp add: db_await_def next_fault_def after_await_def split: list.splits)

lemma after_await_simps [simp]:
  "collection (after_await ev w) = collection w"
  "cache (after_await ev w) = cache w"
  "clock (after_await ev w) = clock w"
  "nextId (after_await ev w) = nextId w"
  "faults (after_await ev w) = tl (faults w)"
  "trace (after_await ev w) = trace w @ [if next_fault w then DbFailure else ev]"
  by (simp_all add: after_await_def)

lemma next_fault_simps [simp]:
  "next_fault (w\<lparr>trace := t\<rparr>) = next_fault w"
  "next_fault (w\<lparr>cache := c\<rparr>) = next_fault w"
  "next_fault (w\<lparr>collection := ps\<rparr>) = next_fault w"
  "next_fault (w\<lparr>nextId := n\<rparr>) = next_fault w"
  "next_fault (w\<lparr>clock := t'\<rparr>) = next_fault w"
  by (simp_all add: next_fault_def)

lemma countDocuments_eq:
  "countDocuments rx flt w =
     (if next_fault w then Inl DataAccessFailure else Inr (count_matching rx flt (collection w)),
      after_await DbRead w)"
  by (simp add: countDocuments_def db_await_eq)

lemma find_page_eq:
  "find_page rx flt lmt skp w =
     (case (ToNumber lmt, skp) of
        (Num l, Num s) \<Rightarrow>
          if next_fault w \<or> s < 0 then Inl DataAccessFailure
          else Inr (select_page rx flt l s (collection w))
      | _ \<Rightarrow> Inl DataAccessFailure,
      after_await DbRead w)"
  by (simp add: find_page_def db_await_eq split: jsnum.splits)

lemma find_top_eq:
  "find_top w =
     (if next_fault w then Inl DataAccessFailure
      else Inr (take 3 (sort_key (\<lambda>p. - prod_rating p) (collection w))),
      after_await DbRead w)"
  by (simp add: find_top_def db_await_eq)

lemma findById_eq:
  "findById i w =
     (if next_fault w then Inl DataAccessFailure
      else Inr (find (\<lambda>p. prod_id p = i) (collection w)),
      after_await DbRead w)"
  by (simp add: findById_def db_await_eq)

lemma save_eq:
  "save p w =
     (if next_fault w then (Inl DataAccessFailure, after_await DbCommit w)
      else (Inr p, (after_await DbCommit w)\<lparr>collection := upsert p (collection w)\<rparr>))"
  by (simp add: save_def db_await_eq)

lemma deleteOne_eq:
  "deleteOne i w =
     (if next_fault w then (Inl DataAccessFailure, after_await DbCommit w)
      else (Inr (), (after_await DbCommit w)\<lparr>collection := delete_first i (collection w)\<rparr>))"
  by (simp add: deleteOne_def db_await_eq)

lemmas data_access = countDocuments_eq find_page_eq find_top_eq findById_eq save_eq deleteOne_eq

lemmas cache_calls = cache_has_def cache_get_def cache_set_def cache_flushAll_def store_flushAll_def

lemmas res_calls = res_json_def res_set_def res_status_def throw_def res0_def

text \<open>The store after \<open>set\<close>: the key holds the new entry, every other key is as before.\<close>

lemma map_of_store_set:
  "map_of (store_set now k v t c) k' =
     (if k' = k then Some \<lparr>entry_value = v, storedAt = now, ttl = t\<rparr> else map_of c k')"
  by (simp add: store_set_def update_conv')

section \<open>JSON text\<close>



lemma plain_JSON_parse: "plain (JSON_parse j)"
proof (induction j)
  case (JArr xs)
  then show ?case by (simp add: list_all_iff)
next
  case (JObj kvs)
  have "plain (JSON_parse (snd kv))" if "kv \<in> set kvs" for kv
    using JObj that by (cases kv) (auto simp: snds.simps)
  then show ?case by (simp add: list_all_iff)
qed simp_all

section \<open>Normalization of the query parameters\<close>

lemma unsigned_literal_finite: "unsigned_literal s = NaN \<or> (\<exists>n. unsigned_literal s = Num n)"
  by (simp add: unsigned_literal_def)

lemma StringToNumber_finite: "StringToNumber s = NaN \<or> (\<exists>n. StringToNumber s = Num n)"
  using unsigned_literal_finite [of "tl (trim s)"] unsigned_literal_finite [of "trim s"]
  by (auto simp: StringToNumber_def split: list.splits jsnum.splits)

text \<open>The normalized page is a finite number other than 0.\<close>

lemma page_finite: "\<exists>p. page q = Num p \<and> p \<noteq> 0"
  using StringToNumber_finite [of "the (pageNumber q)"]
  by (auto simp: page_def ToNumber_def param_def truthy_def Let_def split: option.splits)





section \<open>The read path of \<^verbatim>\<open>getProducts\<close>\<close>

lemma getProducts_hit:
  "store_has (clock w) (cacheKey q) (cache w) \<Longrightarrow>
   getProducts rx e q w =
     (\<lparr>statusCode = 200, headers = [(''X-Cache'', ''HIT'')],
       body = (if store_get (clock w) (cacheKey q) (cache w) = VUndefined then None
               else Some (JSON_stringify (store_get (clock w) (cacheKey q) (cache w)))),
       thrown = None\<rparr>,
      w\<lparr>trace := trace w @ [CacheHas (cacheKey q), CacheGet (cacheKey q), ResJson]\<rparr>)"
  by (simp add: getProducts_def cache_calls res_calls Let_def)



text \<open>
  A miss whose two queries succeed: the page size and the page are finite, the response
  and the new cache entry hold the page computed from the collection, and the calls are
  \<open>has\<close>, two reads, \<open>set\<close> and the response, in this order.
\<close>

lemma getProducts_miss_success:
  assumes "\<not> store_has (clock w) (cacheKey q) (cache w)"
    and "getProducts rx e q w = (res, w')" and "thrown res = None"
  shows "\<exists>l p. ToNumber (pageSize e) = Num l \<and> page q = Num p \<and> 0 \<le> l * (p - 1)
      \<and> body res = Some (page_payload rx q l p (collection w))
      \<and> cache w' = store_set (clock w) (cacheKey q)
            (JSON_parse (page_payload rx q l p (collection w))) (stdTTL e) (cache w)
      \<and> collection w' = collection w \<and> clock w' = clock w
      \<and> trace w' = trace w @ [CacheHas (cacheKey q), DbRead, DbRead, CacheSet (cacheKey q), ResJson]"
proof -
  obtain p where p: "page q = Num p" using page_finite by blast
  show ?thesis
    using assms
    apply (simp add: getProducts_def cache_has_def Let_def res_set_def res0_def
        countDocuments_eq find_page_eq p split: prod.splits sum.splits)
    apply (auto simp: throw_def Let_def js_mul_def js_sub_def js_add_def js_neg_def res_json_def
        cache_set_def page_payload_def comp_def split: if_splits jsnum.splits)
    done
qed



section \<open>Configuration\<close>

text \<open>
  Claim C7, as the code has it. The time to live is the constant 300 whatever the
  environment holds: under an environment that sets \<^verbatim>\<open>CACHE_TTL\<close> and \<^verbatim>\<open>STD_TTL\<close> to
  60, the entry that \<^verbatim>\<open>getProducts\<close> stores still lives 300 seconds.
\<close>

theorem ttl_override_counterexample:
  "stdTTL env_ttl = 300
   \<and> map (\<lambda>kv. ttl (snd kv)) (cache (snd (getProducts occurs_in env_ttl query0 world0))) = [300]"
  by code_simp

text \<open>
  Claim C7, amended. The page size is taken from the environment variable
  \<^verbatim>\<open>PAGINATION_LIMIT\<close> and is 8 when the variable is missing or empty; the time to live
  of a cache entry is 300 seconds (five minutes) in every environment.
\<close>

theorem configuration_defaults:
  "stdTTL e = 300
   \<and> pageSize e =
       (case e ''PAGINATION_LIMIT'' of
          None \<Rightarrow> PNumber (Num 8)
        | Some s \<Rightarrow> if s = [] then PNumber (Num 8) else PString s)"
  by (simp add: stdTTL_def pageSize_def js_or_def truthy_def param_def split: option.splits)

section \<open>Requests that fail, and the single-product read\<close>

text \<open>
  Claim C9. \<^verbatim>\<open>getProductById\<close> leaves the store as it was, whether it finds the
  product, answers 404 or fails in the data-access call, and none of the calls it makes
  is a call on the cache.
\<close>

theorem getProductById_no_cache:
  "cache (snd (getProductById i w)) = cache w
   \<and> (\<exists>evs. trace (snd (getProductById i w)) = trace w @ evs \<and> filter is_cache_call evs = [])"
  by (simp add: getProductById_def data_access res_calls Let_def split: option.splits)

text \<open>A handler that throws has left the world untouched.\<close>

lemma getProducts_failed:
  "getProducts rx e q w = (res, w') \<Longrightarrow> thrown res \<noteq> None \<Longrightarrow> untouched w w'"
  by (auto simp: untouched_def getProducts_def data_access cache_calls res_calls Let_def
      split: if_splits jsnum.splits sum.splits)

lemma getTopProducts_failed:
  "getTopProducts e w = (res, w') \<Longrightarrow> thrown res \<noteq> None \<Longrightarrow> untouched w w'"
  by (auto simp: untouched_def getTopProducts_def data_access cache_calls res_calls Let_def
      split: if_splits)

lemma getProductById_failed:
  "getProductById i w = (res, w') \<Longrightarrow> thrown res \<noteq> None \<Longrightarrow> untouched w w'"
  by (auto simp: untouched_def getProductById_def data_access res_calls Let_def
      split: if_splits option.splits)

lemma createProduct_failed:
  "createProduct u w = (res, w') \<Longrightarrow> thrown res \<noteq> None \<Longrightarrow> untouched w w'"
  by (auto simp: untouched_def createProduct_def data_access cache_calls res_calls Let_def
      split: if_splits)

lemma updateProduct_failed:
  "updateProduct i b w = (res, w') \<Longrightarrow> thrown res \<noteq> None \<Longrightarrow> untouched w w'"
  by (auto simp: untouched_def updateProduct_def data_access cache_calls res_calls Let_def
      split: if_splits option.splits)

lemma deleteProduct_failed:
  "deleteProduct i w = (res, w') \<Longrightarrow> thrown res \<noteq> None \<Longrightarrow> untouched w w'"
  by (auto simp: untouched_def deleteProduct_def data_access cache_calls res_calls Let_def
      split: if_splits option.splits)

lemma createProductReview_failed:
  "createProductReview i u b w = (res, w') \<Longrightarrow> thrown res \<noteq> None \<Longrightarrow> untouched w w'"
  by (auto simp: untouched_def createProductReview_def data_access cache_calls res_calls Let_def
      split: if_splits option.splits)

lemma handle_failed:
  "handle rx e r w = (res, w') \<Longrightarrow> thrown res \<noteq> None \<Longrightarrow> untouched w w'"
  by (cases r)
    (simp_all add: getProducts_failed getProductById_failed createProduct_failed
      updateProduct_failed deleteProduct_failed createProductReview_failed getTopProducts_failed)

text \<open>
  Claim C3. A request that fails, whatever the handler and whatever the failure (404
  for an absent product, 400 for a second review, a data-access error), leaves the store
  exactly as it was and calls neither \<open>set\<close> nor \<open>flushAll\<close>; a \<^verbatim>\<open>getProducts\<close>
  read that was a hit before the attempt is a hit after it, with the same body.
\<close>

theorem failed_request_leaves_cache:
  assumes "handle rx e r w = (res, w')" and "thrown res \<noteq> None"
  shows "cache w' = cache w
     \<and> (\<exists>evs. trace w' = trace w @ evs \<and> filter is_cache_write evs = [])
     \<and> (\<forall>q. store_has (clock w) (cacheKey q) (cache w) \<longrightarrow>
            x_cache (fst (getProducts rx e q w')) = Some ''HIT''
            \<and> body (fst (getProducts rx e q w')) = body (fst (getProducts rx e q w)))"
proof -
  from handle_failed [OF assms] have u: "untouched w w'" .
  then have same: "cache w' = cache w" "clock w' = clock w"
    by (simp_all add: untouched_def)
  have "x_cache (fst (getProducts rx e q w')) = Some ''HIT''
      \<and> body (fst (getProducts rx e q w')) = body (fst (getProducts rx e q w))"
    if hit: "store_has (clock w) (cacheKey q) (cache w)" for q
  proof -
    from hit same have hit': "store_has (clock w') (cacheKey q) (cache w')"
      by simp
    show ?thesis
      by (simp add: getProducts_hit [OF hit] getProducts_hit [OF hit'] same x_cache_def)
  qed
  with u show ?thesis
    by (simp add: untouched_def)
qed

theorem failed_request_witness:
  "thrown (fst (handle occurs_in env0 (UpdateProduct 9 body0) world_cached)) = Some NotFound
   \<and> cache (snd (handle occurs_in env0 (UpdateProduct 9 body0) world_cached)) = cache world_cached
   \<and> thrown (fst (handle occurs_in env0 (CreateProductReview 1 ann review0) world_cached))
       = Some DuplicateReview
   \<and> cache (snd (handle occurs_in env0 (CreateProductReview 1 ann review0) world_cached))
       = cache world_cached
   \<and> thrown (fst (handle occurs_in env0 (DeleteProduct 1) (world_cached\<lparr>faults := [False, True]\<rparr>)))
       = Some DataAccessFailure
   \<and> cache (snd (handle occurs_in env0 (DeleteProduct 1) (world_cached\<lparr>faults := [False, True]\<rparr>)))
       = cache world_cached
   \<and> x_cache (fst (getProducts occurs_in env0 query0
         (snd (handle occurs_in env0 (UpdateProduct 9 body0) world_cached)))) = Some ''HIT''"
proof -
  let ?a = "handle occurs_in env0 (UpdateProduct 9 body0) world_cached"
  let ?b = "handle occurs_in env0 (CreateProductReview 1 ann review0) world_cached"
  let ?c = "handle occurs_in env0 (DeleteProduct 1) (world_cached\<lparr>faults := [False, True]\<rparr>)"
  have a: "thrown (fst ?a) = Some NotFound"
    by code_simp
  have b: "thrown (fst ?b) = Some DuplicateReview"
    by code_simp
  have c: "thrown (fst ?c) = Some DataAccessFailure"
    by code_simp
  have hit: "store_has (clock world_cached) (cacheKey query0) (cache world_cached)"
    by code_simp
  have a': "?a = (fst ?a, snd ?a)" "thrown (fst ?a) \<noteq> None"
    using a by simp_all
  have b': "?b = (fst ?b, snd ?b)" "thrown (fst ?b) \<noteq> None"
    using b by simp_all
  have c': "?c = (fst ?c, snd ?c)" "thrown (fst ?c) \<noteq> None"
    using c by simp_all
  from failed_request_leaves_cache [OF a'] failed_request_leaves_cache [OF b']
    failed_request_leaves_cache [OF c'] a b c hit
  show ?thesis
    by simp
qed
section \<open>Mutations that succeed\<close>













section \<open>What the read paths put into the store\<close>

text \<open>\<^verbatim>\<open>getProducts\<close> stores the parsed JSON text of its response: a plain value.\<close>

lemma getProducts_stores_plain:
  assumes "\<not> store_has (clock w) (cacheKey q) (cache w)"
    and "getProducts rx e q w = (res, w')" and "thrown res = None"
  shows "\<exists>en. map_of (cache w') (cacheKey q) = Some en \<and> plain (entry_value en)"
proof -
  from getProducts_miss_success [OF assms] obtain l p where
    "cache w' = store_set (clock w) (cacheKey q)
        (JSON_parse (page_payload rx q l p (collection w))) (stdTTL e) (cache w)"
    by blast
  then show ?thesis
    by (simp add: map_of_store_set plain_JSON_parse)
qed

text \<open>
  \<^verbatim>\<open>getTopProducts\<close> stores the array of documents that the query returned, as it is:
  whenever the collection is not empty, the stored value is not plain.
\<close>

lemma getTopProducts_stores_documents:
  assumes "\<not> store_has (clock w) ''top_products'' (cache w)" and "\<not> next_fault w"
    and "collection w \<noteq> []"
  shows "\<exists>en. map_of (cache (snd (getTopProducts e w))) ''top_products'' = Some en
      \<and> \<not> plain (entry_value en)"
proof -
  from assms(3) have "take 3 (sort_key (\<lambda>p. - prod_rating p) (collection w)) \<noteq> []"
    by (metis length_0_conv length_sort take_eq_Nil zero_neq_numeral)
  then obtain p ps where "take 3 (sort_key (\<lambda>p. - prod_rating p) (collection w)) = p # ps"
    by (cases "take 3 (sort_key (\<lambda>p. - prod_rating p) (collection w))") auto
  with assms(1,2) show ?thesis
    by (simp add: getTopProducts_def data_access cache_calls res_calls Let_def map_of_store_set)
qed


section \<open>Invariants of the store\<close>

text \<open>
  Reads keep a live entry of the paginated list: a request that is not a mutation leaves
  the entry under a key that \<open>has\<close> reports as it was.
\<close>

lemma read_keeps_entry:
  assumes "\<not> is_mutation r" and "store_has (clock w) (cacheKey q) (cache w)"
  shows "map_of (cache (snd (handle rx e r w))) (cacheKey q) = map_of (cache w) (cacheKey q)"
proof (cases r)
  case (GetProducts q')
  let ?r = "getProducts rx e q' w"
  have eq: "?r = (fst ?r, snd ?r)"
    by simp
  show ?thesis
  proof (cases "store_has (clock w) (cacheKey q') (cache w)")
    case True
    then show ?thesis by (simp add: GetProducts getProducts_hit)
  next
    case miss: False
    with assms(2) have ne: "cacheKey q \<noteq> cacheKey q'"
      by auto
    show ?thesis
    proof (cases "thrown (fst ?r) = None")
      case True
      from getProducts_miss_success [OF miss eq True] ne show ?thesis
        by (auto simp: GetProducts map_of_store_set)
    next
      case False
      from getProducts_failed [OF eq False] show ?thesis
        by (simp add: GetProducts untouched_def)
    qed
  qed
next
  case (GetProductById i)
  then show ?thesis
    by (simp add: getProductById_def data_access res_calls Let_def split: option.splits)
next
  case GetTopProducts
  have "cacheKey q \<noteq> ''top_products''"
    by (simp add: cacheKey_def)
  then show ?thesis
    by (simp add: GetTopProducts getTopProducts_def data_access cache_calls res_calls Let_def
        map_of_store_set)
qed (use assms(1) in simp_all)











section \<open>The response of the paginated list\<close>





end
